theory Spec2Isabelle
  imports Main "HOL-Library.List_Lexorder" "HOL-Library.Char_ord"
begin

section \<open>Python values and text formatting\<close>

text \<open>
  Scalars that occur as names of series and as arguments of \<open>str.format\<close>:
  \<open>None\<close>, booleans, integers and strings.
\<close>

datatype pyval = PyNone | PyBool bool | PyInt int | PyStr string

text \<open>The exceptions raised by the two modules and by the library calls they make.\<close>

datatype error =
    AssertionError string
  | TypeError
  | AttributeError
  | ValueError string
  | ShapeError
  | NotImplementedError

definition digit_char :: "nat \<Rightarrow> char" where
  "digit_char d = ''0123456789'' ! d"

fun str_nat :: "nat \<Rightarrow> string" where
  "str_nat n = (if n < 10 then [digit_char n] else str_nat (n div 10) @ [digit_char (n mod 10)])"

declare str_nat.simps [simp del]

definition str_int :: "int \<Rightarrow> string" where
  "str_int i = (if i < 0 then CHR ''-'' # str_nat (nat (- i)) else str_nat (nat i))"

text \<open>\<open>str(v)\<close>, which is what \<open>"{0}".format(v)\<close> inserts for these values.\<close>

fun py_str :: "pyval \<Rightarrow> string" where
  "py_str PyNone = ''None''"
| "py_str (PyBool b) = (if b then ''True'' else ''False'')"
| "py_str (PyInt i) = str_int i"
| "py_str (PyStr s) = s"

text \<open>\<open>str(type(v))\<close>.\<close>

fun py_type :: "pyval \<Rightarrow> string" where
  "py_type PyNone = ''<class 'NoneType'>''"
| "py_type (PyBool b) = ''<class 'bool'>''"
| "py_type (PyInt i) = ''<class 'int'>''"
| "py_type (PyStr s) = ''<class 'str'>''"

section \<open>Tabular objects\<close>

text \<open>
  The objects handed to the two modules. \<open>'a\<close> is the type of one cell. A pandas series
  carries a name (any scalar, \<open>None\<close> when unnamed) and its values; a data frame is the
  list of its named columns; a numpy array is the list of its rows; \<open>PyList\<close> stands for
  a plain Python list, which neither pandas nor narwhals knows and which has no \<open>shape\<close>.
  \<open>NwSeries\<close> and \<open>NwDataFrame\<close> are the narwhals wrappers; the wrapper of a series keeps
  the name of the series it wraps until \<open>alias\<close> replaces it.
\<close>

datatype 'a pyobj =
    PdSeries pyval "'a list"
  | PdDataFrame "(string \<times> 'a list) list"
  | NdArray "'a list list"
  | PyList "'a list"
  | NwSeries pyval "'a list"
  | NwDataFrame "(string \<times> 'a list) list"

text \<open>\<open>isinstance(obj, nw.Series)\<close> and \<open>isinstance(obj, pd.Series)\<close>.\<close>

fun is_nw_series :: "'a pyobj \<Rightarrow> bool" where
  "is_nw_series (NwSeries n vs) = True"
| "is_nw_series obj = False"

fun is_pd_series :: "'a pyobj \<Rightarrow> bool" where
  "is_pd_series (PdSeries n vs) = True"
| "is_pd_series obj = False"

text \<open>The \<open>name\<close> attribute of a series; it is only read after an \<open>isinstance\<close> check.\<close>

fun series_name :: "'a pyobj \<Rightarrow> pyval" where
  "series_name (PdSeries n vs) = n"
| "series_name (NwSeries n vs) = n"
| "series_name obj = PyNone"

text \<open>\<open>Series.to_pandas()\<close>: the pandas series behind a narwhals one.\<close>

fun to_pandas :: "'a pyobj \<Rightarrow> 'a pyobj" where
  "to_pandas (NwSeries n vs) = PdSeries n vs"
| "to_pandas obj = obj"

text \<open>The cells of an object, as \<open>numpy\<close> sees them when it flattens its argument.\<close>

fun cells :: "'a pyobj \<Rightarrow> 'a list" where
  "cells (PdSeries n vs) = vs"
| "cells (PdDataFrame cols) = concat (map snd cols)"
| "cells (NdArray rows) = concat rows"
| "cells (PyList vs) = vs"
| "cells (NwSeries n vs) = vs"
| "cells (NwDataFrame cols) = concat (map snd cols)"

section \<open>GroupFeature\<close>

text \<open>
  The cells of a grouping feature are group labels: strings, or \<open>None\<close> where a label is
  missing. So a cell is a \<open>string option\<close>, and numeric cells, which \<open>numpy\<close> may convert
  to another type, are outside this model.
\<close>

type_synonym label = "string option"

text \<open>
  What \<open>numpy\<close> makes of its argument before it sorts. A plain list of strings becomes an
  array of fixed-width strings, which cannot hold a NUL character at the end of a string:
  reading an element back gives the string without its trailing NULs. A list with a
  \<open>None\<close> in it, a series, a frame and an array of objects keep their cells as they are.
\<close>

definition strip_nul :: "string \<Rightarrow> string" where
  "strip_nul s = rev (dropWhile (\<lambda>c. c = CHR 0x00) (rev s))"

fun np_asarray :: "label pyobj \<Rightarrow> label list" where
  "np_asarray (PyList vs) = (if None \<in> set vs then vs else map (map_option strip_nul) vs)"
| "np_asarray obj = cells obj"

fun strings_of :: "label list \<Rightarrow> string list" where
  "strings_of [] = []"
| "strings_of (None # vs) = strings_of vs"
| "strings_of (Some s # vs) = s # strings_of vs"

text \<open>
  \<open>numpy.unique\<close>: the sorted unique elements of its (flattened) argument. Strings are
  sorted in the order of Python's \<open>str\<close>, character by character. \<open>None\<close> cannot be
  compared, neither with a string nor with \<open>None\<close>: sorting an array of two or more
  cells with a \<open>None\<close> among them raises \<open>TypeError\<close>, while an array of at most one cell is
  returned without any comparison.
\<close>

definition np_unique :: "label pyobj \<Rightarrow> error + label list" where
  "np_unique obj =
     (let vs = np_asarray obj
      in if None \<in> set vs
         then (if length vs \<le> 1 then Inr vs else Inl TypeError)
         else Inr (map Some (sort (remdups (strings_of vs)))))"

text \<open>The attributes \<open>raw_feature_\<close>, \<open>classes_\<close> and \<open>name_\<close> of a constructed instance.\<close>

record group_feature =
  raw_feature :: "label pyobj"
  classes :: "label list"
  feature_name :: string

text \<open>\<open>_SERIES_NAME_NOT_STRING.format(v, type(v))\<close>; \<open>CHR 0x27\<close> is the single quote.\<close>

definition SERIES_NAME_NOT_STRING :: "pyval \<Rightarrow> string" where
  "SERIES_NAME_NOT_STRING v =
     ''Series name must be a string. Value '' @ [CHR 0x27] @ py_str v @ [CHR 0x27]
       @ '' was of type '' @ py_type v"

text \<open>
  The name of the instance, once \<open>raw_feature_\<close> and \<open>classes_\<close> are there (lines 65 to 76):
  the default from base name and index, replaced by the explicit name, or else, for a
  pandas series, by the series' own name, which has to be \<open>None\<close> or a string.
\<close>

definition resolve_name :: "group_feature \<Rightarrow> string option \<Rightarrow> error + group_feature" where
  "resolve_name self name =
     (case name of
        Some n \<Rightarrow> Inr (self\<lparr>feature_name := n\<rparr>)
      | None \<Rightarrow>
          (if is_pd_series (raw_feature self) then
             (case series_name (raw_feature self) of
                PyNone \<Rightarrow> Inr self
              | PyStr s \<Rightarrow> Inr (self\<lparr>feature_name := s\<rparr>)
              | v \<Rightarrow> Inl (ValueError (SERIES_NAME_NOT_STRING v)))
           else Inr self))"

text \<open>
  \<open>GroupFeature.__init__(base_name, feature_vector, index, name)\<close>. \<open>numpy.unique\<close> is
  called before the name is looked at, so its error comes first. An exception in the
  constructor leaves no instance behind, so the result is the error or the instance.
\<close>

definition GroupFeature_init ::
  "string \<Rightarrow> label pyobj \<Rightarrow> int \<Rightarrow> string option \<Rightarrow> error + group_feature" where
  "GroupFeature_init base_name feature_vector index name =
     (let raw = (if is_nw_series feature_vector then to_pandas feature_vector
                 else feature_vector)
      in (case np_unique raw of
            Inl e \<Rightarrow> Inl e
          | Inr cs \<Rightarrow>
              resolve_name \<lparr>raw_feature = raw, classes = cs,
                             feature_name = base_name @ str_int index\<rparr> name))"

text \<open>
  The name a feature vector carries by itself: the name of a series (also of the series
  behind a narwhals one), and none for every other object.
\<close>

definition intrinsic_name :: "'a pyobj \<Rightarrow> pyval" where
  "intrinsic_name obj = series_name obj"

text \<open>The resolution order of the specification, written from its words.\<close>

definition resolved_name_spec :: "string \<Rightarrow> 'a pyobj \<Rightarrow> int \<Rightarrow> string option \<Rightarrow> string" where
  "resolved_name_spec base_name feature_vector index name =
     (case name of
        Some n \<Rightarrow> n
      | None \<Rightarrow>
          (case intrinsic_name feature_vector of
             PyStr s \<Rightarrow> s
           | _ \<Rightarrow> base_name @ str_int index))"

fun name_is_none_or_str :: "pyval \<Rightarrow> bool" where
  "name_is_none_or_str PyNone = True"
| "name_is_none_or_str (PyStr s) = True"
| "name_is_none_or_str v = False"

text \<open>
  Values that can be sorted: no \<open>None\<close> among two or more cells. Values that are plain
  labels: every cell is a string, and none ends in a NUL character.
\<close>

definition orderable :: "label list \<Rightarrow> bool" where
  "orderable vs = (None \<notin> set vs \<or> length vs \<le> 1)"


section \<open>The narwhals calls of \<open>load_data\<close>\<close>

text \<open>
  \<open>nw.from_native(obj, series_only=True)\<close> (strict by default): a series is wrapped, a
  narwhals series is returned as it is, anything else is a \<open>TypeError\<close>.
\<close>

fun from_native_series_only :: "'a pyobj \<Rightarrow> error + 'a pyobj" where
  "from_native_series_only (PdSeries n vs) = Inr (NwSeries n vs)"
| "from_native_series_only (NwSeries n vs) = Inr (NwSeries n vs)"
| "from_native_series_only obj = Inl TypeError"

text \<open>
  \<open>nw.from_native(obj, strict=False)\<close>: a data frame is wrapped; what narwhals does not
  convert (here also a series, which is not allowed) is returned as it is.
\<close>

fun from_native_pass :: "'a pyobj \<Rightarrow> 'a pyobj" where
  "from_native_pass (PdDataFrame cols) = NwDataFrame cols"
| "from_native_pass obj = obj"

text \<open>\<open>nw.from_native(obj, strict=False, allow_series=True)\<close>: as before, and a series is wrapped.\<close>

fun from_native_pass_series :: "'a pyobj \<Rightarrow> 'a pyobj" where
  "from_native_pass_series (PdDataFrame cols) = NwDataFrame cols"
| "from_native_pass_series (PdSeries n vs) = NwSeries n vs"
| "from_native_pass_series obj = obj"

text \<open>
  \<open>obj.alias(name)\<close> and \<open>obj.to_frame()\<close> are methods of a narwhals series; on any other
  object the attribute lookup fails.
\<close>

fun alias_nw :: "string \<Rightarrow> 'a pyobj \<Rightarrow> error + 'a pyobj" where
  "alias_nw name (NwSeries n vs) = Inr (NwSeries (PyStr name) vs)"
| "alias_nw name obj = Inl AttributeError"

fun to_frame :: "'a pyobj \<Rightarrow> error + 'a pyobj" where
  "to_frame (NwSeries n vs) = Inr (NwDataFrame [(py_str n, vs)])"
| "to_frame obj = Inl AttributeError"

text \<open>The number of rows of a frame given by its columns.\<close>

fun nrows :: "(string \<times> 'a list) list \<Rightarrow> nat" where
  "nrows [] = 0"
| "nrows ((n, vs) # cols) = length vs"

text \<open>A new column replaces the column of the same name, or else is appended.\<close>

fun put_column :: "string \<Rightarrow> 'a list \<Rightarrow> (string \<times> 'a list) list \<Rightarrow> (string \<times> 'a list) list" where
  "put_column name vs [] = [(name, vs)]"
| "put_column name vs ((n, ws) # cols) =
     (if n = name then (n, vs) # cols else (n, ws) # put_column name vs cols)"

text \<open>
  \<open>df.with_columns(series)\<close>: the series is attached by position and has to have as many
  entries as the frame has rows. What happens otherwise depends on the backend and the
  version of narwhals, which the repository does not fix; it is the parameter
  \<open>broadcast\<close>. Where it holds (the pandas backend of the versions that take
  \<open>strict=False\<close>), a series of one entry is repeated to the height of the frame, and any
  other length fails when pandas sets the index of the frame on the series, with pandas'
  \<open>ValueError\<close>. Where it does not hold, every other length is a \<open>ShapeError\<close>.
\<close>

definition length_mismatch :: "nat \<Rightarrow> nat \<Rightarrow> string" where
  "length_mismatch old_len new_len =
     ''Length mismatch: Expected axis has '' @ str_nat old_len
       @ '' elements, new values have '' @ str_nat new_len @ '' elements''"

fun with_columns :: "bool \<Rightarrow> 'a pyobj \<Rightarrow> 'a pyobj \<Rightarrow> error + 'a pyobj" where
  "with_columns broadcast (NwDataFrame cols) (NwSeries n vs) =
     (if length vs = nrows cols then Inr (NwDataFrame (put_column (py_str n) vs cols))
      else if broadcast then
        (if length vs = 1
         then Inr (NwDataFrame (put_column (py_str n) (replicate (nrows cols) (hd vs)) cols))
         else Inl (ValueError (length_mismatch (length vs) (nrows cols))))
      else Inl ShapeError)"
| "with_columns broadcast (NwDataFrame cols) obj = Inl TypeError"
| "with_columns broadcast df obj = Inl AttributeError"

text \<open>\<open>obj.shape[0]\<close>; a plain list has no \<open>shape\<close>.\<close>

fun shape0 :: "'a pyobj \<Rightarrow> error + nat" where
  "shape0 (PdSeries n vs) = Inr (length vs)"
| "shape0 (PdDataFrame cols) = Inr (nrows cols)"
| "shape0 (NdArray rows) = Inr (length rows)"
| "shape0 (PyList vs) = Inl AttributeError"
| "shape0 (NwSeries n vs) = Inr (length vs)"
| "shape0 (NwDataFrame cols) = Inr (nrows cols)"

text \<open>The column of a frame by name, and the entries of a series by position.\<close>

fun get_column :: "string \<Rightarrow> 'a pyobj \<Rightarrow> 'a list option" where
  "get_column name (NwDataFrame cols) = map_of cols name"
| "get_column name (PdDataFrame cols) = map_of cols name"
| "get_column name obj = None"

fun columns :: "'a pyobj \<Rightarrow> string list" where
  "columns (NwDataFrame cols) = map fst cols"
| "columns (PdDataFrame cols) = map fst cols"
| "columns obj = []"

section \<open>Moment\<close>

text \<open>
  The three classes of the module, and an instance: its class and its attributes. An
  attribute that has not been assigned yet is \<open>None\<close> here; \<open>self_y\<close> is \<open>self._y\<close> and
  \<open>self_gamma_descr\<close> is \<open>self._gamma_descr\<close>. An object handed over by the caller and
  never looked into (the loss) is its reference, so that being the same object is being
  the same reference.
\<close>

datatype moment_class = Moment | ClassificationMoment | LossMoment

datatype objref = ObjRef nat

record 'a moment =
  cls :: moment_class
  data_loaded :: bool
  self_X :: "'a pyobj option"
  self_y :: "'a pyobj option"
  self_tags :: "'a pyobj option"
  self_gamma_descr :: "pyval option"
  reduction_loss :: "objref option"

text \<open>The constructors: \<open>Moment()\<close>, \<open>ClassificationMoment()\<close> and \<open>LossMoment(loss)\<close>.\<close>

definition Moment_init :: "'a moment" where
  "Moment_init = \<lparr>cls = Moment, data_loaded = False, self_X = None, self_y = None,
     self_tags = None, self_gamma_descr = None, reduction_loss = None\<rparr>"

definition ClassificationMoment_init :: "'a moment" where
  "ClassificationMoment_init = Moment_init\<lparr>cls := ClassificationMoment\<rparr>"

definition LossMoment_init :: "objref \<Rightarrow> 'a moment" where
  "LossMoment_init loss = Moment_init\<lparr>cls := LossMoment, reduction_loss := Some loss\<rparr>"

text \<open>
  A call of a method that changes the instance either returns or raises; in both cases
  the instance is left in some state, which is part of the outcome.
\<close>

datatype 'a outcome = Returned "'a moment" | Raised error "'a moment"

text \<open>
  The steps of \<open>load_data\<close> that can raise. First the sensitive features, when given:
  \<open>nw.from_native(sensitive_features, series_only=True)\<close> and the assertion that the
  result is a narwhals series.
\<close>

fun sensitive_from_native :: "'a pyobj option \<Rightarrow> error + 'a pyobj option" where
  "sensitive_from_native None = Inr None"
| "sensitive_from_native (Some s) =
     (case from_native_series_only s of
        Inl e \<Rightarrow> Inl e
      | Inr s' \<Rightarrow> (if is_nw_series s' then Inr (Some s') else Inl (AssertionError [])))"

text \<open>\<open>self._y.alias(_LABEL).to_frame()\<close>.\<close>

definition label_frame :: "'a pyobj \<Rightarrow> error + 'a pyobj" where
  "label_frame y = (case alias_nw ''label'' y of Inl e \<Rightarrow> Inl e | Inr l \<Rightarrow> to_frame l)"

text \<open>
  \<open>self.tags.with_columns(sensitive_features.alias(_GROUP_ID))\<close>, when sensitive features
  are given; otherwise the tags stay as they are.
\<close>

fun attach_group_id :: "bool \<Rightarrow> 'a pyobj \<Rightarrow> 'a pyobj option \<Rightarrow> error + 'a pyobj" where
  "attach_group_id broadcast tags None = Inr tags"
| "attach_group_id broadcast tags (Some s) =
     (case alias_nw ''group_id'' s of
        Inl e \<Rightarrow> Inl e
      | Inr g \<Rightarrow> with_columns broadcast tags g)"

text \<open>
  \<open>Moment.load_data(X, y, sensitive_features=...)\<close>, statement by statement: each
  assignment to an attribute is an update of the instance, and a statement that raises
  leaves the instance as the assignments before it made it. The assert statements are
  executed (Python is not run with \<open>-O\<close>). The line printed to standard output is not
  part of the instance and is left out.
\<close>

definition load_data ::
  "bool \<Rightarrow> 'a moment \<Rightarrow> 'a pyobj \<Rightarrow> 'a pyobj \<Rightarrow> 'a pyobj option \<Rightarrow> 'a outcome" where
  "load_data broadcast self X y sensitive_features =
     (if data_loaded self \<noteq> False
      then Raised (AssertionError ''data can be loaded only once'') self
      else
       (case sensitive_from_native sensitive_features of
          Inl e \<Rightarrow> Raised e self
        | Inr sensitive \<Rightarrow>
           (let self1 = self\<lparr>self_X := Some (from_native_pass X)\<rparr>;
                self2 = self1\<lparr>self_y := Some (from_native_pass_series y)\<rparr>
            in (case label_frame (from_native_pass_series y) of
                  Inl e \<Rightarrow> Raised e self2
                | Inr tags \<Rightarrow>
                   (let self3 = self2\<lparr>self_tags := Some tags\<rparr>
                    in (case attach_group_id broadcast tags sensitive of
                          Inl e \<Rightarrow> Raised e self3
                        | Inr tags' \<Rightarrow>
                            Returned (self3\<lparr>self_tags := Some tags', data_loaded := True,
                                             self_gamma_descr := Some PyNone\<rparr>)))))))"

text \<open>Being a series, pandas or narwhals: what \<open>load_data\<close> can turn into a column.\<close>

definition is_series :: "'a pyobj \<Rightarrow> bool" where
  "is_series obj = (is_pd_series obj \<or> is_nw_series obj)"

text \<open>The property \<open>total_samples\<close>: \<open>self.X.shape[0]\<close>; before loading there is no \<open>self.X\<close>.\<close>

definition total_samples :: "'a moment \<Rightarrow> error + nat" where
  "total_samples self = (case self_X self of None \<Rightarrow> Inl AttributeError | Some x \<Rightarrow> shape0 x)"

text \<open>
  The four numerical operations, as the three classes of the module have them (none of
  them overrides the base class): each raises \<open>NotImplementedError\<close>. The predictor and
  the vector of dual variables are not looked at.
\<close>

definition gamma :: "'a moment \<Rightarrow> 'p \<Rightarrow> error + pyval" where
  "gamma self predictor = Inl NotImplementedError"

definition bound :: "'a moment \<Rightarrow> error + pyval" where
  "bound self = Inl NotImplementedError"

definition project_lambda :: "'a moment \<Rightarrow> 'p \<Rightarrow> error + pyval" where
  "project_lambda self lambda_vec = Inl NotImplementedError"

definition signed_weights :: "'a moment \<Rightarrow> 'p \<Rightarrow> error + pyval" where
  "signed_weights self lambda_vec = Inl NotImplementedError"

text \<open>
  What \<open>_moment_type\<close> can return: one of the classes of the module, the class of a built-in
  exception, or an instance of one, made by calling the class.
\<close>

datatype type_tag =
    ModuleClass moment_class
  | ExceptionClass error
  | ExceptionInstance error

text \<open>\<open>_moment_type\<close>, by the class of the instance; no version of it raises.\<close>

definition moment_type :: "'a moment \<Rightarrow> error + type_tag" where
  "moment_type self =
     (case cls self of
        Moment \<Rightarrow> Inr (ExceptionInstance NotImplementedError)
      | ClassificationMoment \<Rightarrow> Inr (ModuleClass ClassificationMoment)
      | LossMoment \<Rightarrow> Inr (ModuleClass LossMoment))"

section \<open>Auxiliary facts\<close>

lemmas str_eval = str_int_def str_nat.simps digit_char_def

lemmas load_data_unfold = load_data_def label_frame_def Let_def

lemma cells_to_pandas: "cells (to_pandas obj) = cells obj"
  by (cases obj) simp_all

lemma shape0_from_native_pass: "shape0 (from_native_pass X) = shape0 X"
  by (cases X) simp_all

lemma sensitive_from_native_Some:
  "sensitive_from_native (Some s) = Inr r \<Longrightarrow>
     \<exists>n vs. r = Some (NwSeries n vs) \<and> shape0 s = Inr (length vs) \<and> cells s = vs"
  by (cases s) (auto split: if_splits)

lemma label_frame_Inr:
  "label_frame (from_native_pass_series y) = Inr t \<Longrightarrow>
     t = NwDataFrame [(''label'', cells y)] \<and> shape0 y = Inr (length (cells y))"
  by (cases y) (auto simp: label_frame_def)

lemma load_data_Returned_loaded:
  "load_data b self X y s = Returned self' \<Longrightarrow> data_loaded self' \<and> \<not> data_loaded self"
  unfolding load_data_unfold
  by (auto split: if_splits sum.splits option.splits)

lemma sensitive_from_native_cases:
  "sensitive_from_native s =
     (case s of None \<Rightarrow> Inr None
      | Some sv \<Rightarrow> if is_series sv then Inr (Some (NwSeries (series_name sv) (cells sv)))
                   else Inl TypeError)"
  by (cases s; cases "the s") (simp_all add: is_series_def)

lemma label_frame_cases:
  "label_frame (from_native_pass_series y) =
     (if is_series y then Inr (NwDataFrame [(''label'', cells y)]) else Inl AttributeError)"
  by (cases y) (simp_all add: label_frame_def is_series_def)

lemma attach_group_id_cases:
  "attach_group_id b (NwDataFrame [(''label'', ys)]) (Some (NwSeries n vs)) =
     (if length vs = length ys
        then Inr (NwDataFrame [(''label'', ys), (''group_id'', vs)])
      else if b then
        (if length vs = 1
           then Inr (NwDataFrame [(''label'', ys), (''group_id'', replicate (length ys) (hd vs))])
         else Inl (ValueError (length_mismatch (length vs) (length ys))))
      else Inl ShapeError)"
  by simp

lemma None_in_np_asarray: "None \<in> set (np_asarray obj) \<longleftrightarrow> None \<in> set (cells obj)"
  by (cases obj) (auto simp: image_iff)

lemma length_np_asarray: "length (np_asarray obj) = length (cells obj)"
  by (cases obj) simp_all






lemma np_unique_orderable:
  "orderable (cells obj) \<Longrightarrow> \<exists>cs. np_unique obj = Inr cs"
  by (auto simp: np_unique_def orderable_def Let_def None_in_np_asarray length_np_asarray)

lemma np_unique_not_orderable:
  "\<not> orderable (cells obj) \<Longrightarrow> np_unique obj = Inl TypeError"
  by (auto simp: np_unique_def orderable_def Let_def None_in_np_asarray length_np_asarray)

lemma np_unique_error: "np_unique obj = Inl e \<Longrightarrow> e = TypeError \<and> \<not> orderable (cells obj)"
  by (auto simp: np_unique_def orderable_def Let_def None_in_np_asarray length_np_asarray split: if_splits)



lemma resolve_name_error:
  "resolve_name self name = Inl e \<Longrightarrow> \<exists>v. e = ValueError (SERIES_NAME_NOT_STRING v)"
  by (auto simp: resolve_name_def split: option.splits if_splits pyval.splits)



lemma GroupFeature_init_orderable:
  assumes "orderable (cells fv)"
  shows "\<exists>cs. np_unique (if is_nw_series fv then to_pandas fv else fv) = Inr cs
     \<and> GroupFeature_init b fv i nm
        = resolve_name \<lparr>raw_feature = (if is_nw_series fv then to_pandas fv else fv),
            classes = cs, feature_name = b @ str_int i\<rparr> nm"
proof -
  from assms have "orderable (cells (if is_nw_series fv then to_pandas fv else fv))"
    by (simp add: cells_to_pandas)
  then obtain cs where "np_unique (if is_nw_series fv then to_pandas fv else fv) = Inr cs"
    using np_unique_orderable by blast
  then show ?thesis by (simp add: GroupFeature_init_def Let_def)
qed

lemma GroupFeature_init_not_orderable:
  assumes "\<not> orderable (cells fv)"
  shows "GroupFeature_init b fv i nm = Inl TypeError"
proof -
  from assms have "\<not> orderable (cells (if is_nw_series fv then to_pandas fv else fv))"
    by (simp add: cells_to_pandas)
  then have "np_unique (if is_nw_series fv then to_pandas fv else fv) = Inl TypeError"
    by (rule np_unique_not_orderable)
  then show ?thesis by (simp add: GroupFeature_init_def Let_def)
qed

lemma resolve_name_raw:
  "resolve_name \<lparr>raw_feature = (if is_nw_series fv then to_pandas fv else fv),
       classes = cs, feature_name = d\<rparr> nm
   = (case nm of
        Some n \<Rightarrow> Inr \<lparr>raw_feature = (if is_nw_series fv then to_pandas fv else fv),
                      classes = cs, feature_name = n\<rparr>
      | None \<Rightarrow>
         (case intrinsic_name fv of
            PyNone \<Rightarrow> Inr \<lparr>raw_feature = (if is_nw_series fv then to_pandas fv else fv),
                      classes = cs, feature_name = d\<rparr>
          | PyStr s \<Rightarrow> Inr \<lparr>raw_feature = (if is_nw_series fv then to_pandas fv else fv),
                      classes = cs, feature_name = s\<rparr>
          | v \<Rightarrow> Inl (ValueError (SERIES_NAME_NOT_STRING v))))"
  by (cases fv; cases nm; cases "series_name fv")
     (simp_all add: resolve_name_def intrinsic_name_def)

section \<open>Loading data\<close>

text \<open>
  C1. Once \<open>load_data\<close> has returned on an instance, every further call on that instance,
  whatever its arguments, raises the assertion error "data can be loaded only once", and
  the instance after the failed call is the instance after the first call: the flag
  \<open>data_loaded\<close>, the features, the labels and the tags are all unchanged.
\<close>

theorem load_data_twice:
  assumes "load_data b self X y s = Returned self1"
  shows "load_data b' self1 X' y' s'
    = Raised (AssertionError ''data can be loaded only once'') self1"
proof -
  from assms have "data_loaded self1" by (simp add: load_data_Returned_loaded)
  then show ?thesis by (simp add: load_data_def)
qed

theorem load_data_twice_witness:
  "load_data False (Moment_init :: int moment) (PdDataFrame [(''f'', [5, 6])]) (PdSeries PyNone [0, 1]) None
     = Returned \<lparr>cls = Moment, data_loaded = True, self_X = Some (NwDataFrame [(''f'', [5, 6])]),
         self_y = Some (NwSeries PyNone [0, 1]), self_tags = Some (NwDataFrame [(''label'', [0, 1])]),
         self_gamma_descr = Some PyNone, reduction_loss = None\<rparr>
   \<and> load_data False \<lparr>cls = Moment, data_loaded = True, self_X = Some (NwDataFrame [(''f'', [5, 6])]),
         self_y = Some (NwSeries PyNone [0, 1]), self_tags = Some (NwDataFrame [(''label'', [0, 1])]),
         self_gamma_descr = Some PyNone, reduction_loss = None\<rparr>
         (PdDataFrame [(''f'', [7 :: int])]) (PdSeries PyNone [1]) None
     = Raised (AssertionError ''data can be loaded only once'')
         \<lparr>cls = Moment, data_loaded = True, self_X = Some (NwDataFrame [(''f'', [5, 6])]),
         self_y = Some (NwSeries PyNone [0, 1]), self_tags = Some (NwDataFrame [(''label'', [0, 1])]),
         self_gamma_descr = Some PyNone, reduction_loss = None\<rparr>"
proof -
  have first: "load_data False (Moment_init :: int moment) (PdDataFrame [(''f'', [5, 6])])
      (PdSeries PyNone [0, 1]) None
     = Returned \<lparr>cls = Moment, data_loaded = True, self_X = Some (NwDataFrame [(''f'', [5, 6])]),
         self_y = Some (NwSeries PyNone [0, 1]), self_tags = Some (NwDataFrame [(''label'', [0, 1])]),
         self_gamma_descr = Some PyNone, reduction_loss = None\<rparr>"
    by (simp add: load_data_unfold Moment_init_def)
  from load_data_twice [OF first] first show ?thesis by simp
qed

text \<open>
  C3, as stated, does not hold: \<open>load_data\<close> is not atomic. With a frame of two rows, two
  labels and three sensitive features the call raises while the group column is attached,
  after \<open>X\<close>, \<open>_y\<close> and \<open>tags\<close> have been assigned; the fresh instance had none of them, and
  \<open>data_loaded\<close> is still false. This is so on either kind of backend; only the error
  differs.
\<close>

theorem load_data_not_atomic:
  "load_data False (Moment_init :: int moment) (PdDataFrame [(''f'', [5, 6])]) (PdSeries PyNone [0, 1])
       (Some (PdSeries PyNone [0, 1, 0]))
     = Raised ShapeError \<lparr>cls = Moment, data_loaded = False,
         self_X = Some (NwDataFrame [(''f'', [5, 6])]),
         self_y = Some (NwSeries PyNone [0, 1]), self_tags = Some (NwDataFrame [(''label'', [0, 1])]),
         self_gamma_descr = None, reduction_loss = None\<rparr>
   \<and> load_data True (Moment_init :: int moment) (PdDataFrame [(''f'', [5, 6])]) (PdSeries PyNone [0, 1])
       (Some (PdSeries PyNone [0, 1, 0]))
     = Raised (ValueError ''Length mismatch: Expected axis has 3 elements, new values have 2 elements'')
        \<lparr>cls = Moment, data_loaded = False,
         self_X = Some (NwDataFrame [(''f'', [5, 6])]),
         self_y = Some (NwSeries PyNone [0, 1]), self_tags = Some (NwDataFrame [(''label'', [0, 1])]),
         self_gamma_descr = None, reduction_loss = None\<rparr>
   \<and> self_X (Moment_init :: int moment) = None
   \<and> self_y (Moment_init :: int moment) = None
   \<and> self_tags (Moment_init :: int moment) = None"
  by (simp add: load_data_unfold Moment_init_def length_mismatch_def str_nat.simps digit_char_def)

text \<open>
  C3, amended. Whenever \<open>load_data\<close> raises, it raises before \<open>data_loaded\<close> is changed, and
  the failure decides the state that is left behind. On a loaded instance it is the
  load-once assertion error, and the instance is unchanged. Otherwise, when sensitive
  features are given that are not a series, it is a \<open>TypeError\<close>, and the instance is
  unchanged. Otherwise, when the labels are not a series, it is an \<open>AttributeError\<close>, and
  \<open>X\<close> and \<open>_y\<close> hold the normalised features and labels of the failed call, nothing else
  having changed. Otherwise the sensitive features have another number of entries than
  the labels, the error is the one of \<open>with_columns\<close>, and besides \<open>X\<close> and \<open>_y\<close> also
  \<open>tags\<close> is assigned: the frame of the one column \<open>label\<close>.
\<close>

theorem load_data_raises_before_loaded:
  assumes "load_data b self X y s = Raised e self'"
  shows "data_loaded self' = data_loaded self
     \<and> (if data_loaded self
          then e = AssertionError ''data can be loaded only once'' \<and> self' = self
        else if (case s of None \<Rightarrow> False | Some sv \<Rightarrow> \<not> is_series sv)
          then e = TypeError \<and> self' = self
        else if \<not> is_series y
          then e = AttributeError
             \<and> self' = self\<lparr>self_X := Some (from_native_pass X),
                               self_y := Some (from_native_pass_series y)\<rparr>
        else (\<exists>sv. s = Some sv \<and> length (cells sv) \<noteq> length (cells y)
                \<and> (b \<longrightarrow> length (cells sv) \<noteq> 1)
                \<and> e = (if b then ValueError (length_mismatch (length (cells sv)) (length (cells y)))
                        else ShapeError))
             \<and> self' = self\<lparr>self_X := Some (from_native_pass X),
                               self_y := Some (from_native_pass_series y),
                               self_tags := Some (NwDataFrame [(''label'', cells y)])\<rparr>)"
proof (cases "data_loaded self")
  case True
  with assms show ?thesis by (auto simp: load_data_def)
next
  case unl: False
  show ?thesis
  proof (cases "case s of None \<Rightarrow> False | Some sv \<Rightarrow> \<not> is_series sv")
    case True
    with assms unl show ?thesis
      by (auto simp: load_data_def sensitive_from_native_cases split: option.splits)
  next
    case sens: False
    show ?thesis
    proof (cases "is_series y")
      case False
      with assms unl sens show ?thesis
        by (auto simp: load_data_def Let_def sensitive_from_native_cases label_frame_cases
                 split: option.splits)
    next
      case True
      with assms unl sens show ?thesis
        by (cases s)
           (auto simp: load_data_def Let_def sensitive_from_native_cases label_frame_cases
                 split: option.splits if_splits)
    qed
  qed
qed

theorem load_data_raises_before_loaded_witness:
  "load_data False (Moment_init :: int moment) (PdDataFrame [(''f'', [5, 6])]) (PyList [0, 1]) None
     = Raised AttributeError \<lparr>cls = Moment, data_loaded = False,
         self_X = Some (NwDataFrame [(''f'', [5, 6])]),
         self_y = Some (PyList [0, 1]), self_tags = None,
         self_gamma_descr = None, reduction_loss = None\<rparr>
   \<and> \<not> is_series (PyList [0 :: int, 1])
   \<and> load_data False (Moment_init :: int moment) (PdDataFrame [(''f'', [5, 6])])
         (PdSeries PyNone [0, 1]) (Some (PdSeries PyNone [7, 8, 9]))
     = Raised ShapeError \<lparr>cls = Moment, data_loaded = False,
         self_X = Some (NwDataFrame [(''f'', [5, 6])]),
         self_y = Some (NwSeries PyNone [0, 1]),
         self_tags = Some (NwDataFrame [(''label'', [0, 1])]),
         self_gamma_descr = None, reduction_loss = None\<rparr>
   \<and> is_series (PdSeries PyNone [0 :: int, 1])
   \<and> data_loaded (Moment_init :: int moment) = False"
proof -
  have labels: "load_data False (Moment_init :: int moment) (PdDataFrame [(''f'', [5, 6])])
         (PyList [0, 1]) None
     = Raised AttributeError \<lparr>cls = Moment, data_loaded = False,
         self_X = Some (NwDataFrame [(''f'', [5, 6])]),
         self_y = Some (PyList [0, 1]), self_tags = None,
         self_gamma_descr = None, reduction_loss = None\<rparr>"
    by (simp add: load_data_unfold Moment_init_def)
  have sens: "load_data False (Moment_init :: int moment) (PdDataFrame [(''f'', [5, 6])])
         (PdSeries PyNone [0, 1]) (Some (PdSeries PyNone [7, 8, 9]))
     = Raised ShapeError \<lparr>cls = Moment, data_loaded = False,
         self_X = Some (NwDataFrame [(''f'', [5, 6])]),
         self_y = Some (NwSeries PyNone [0, 1]),
         self_tags = Some (NwDataFrame [(''label'', [0, 1])]),
         self_gamma_descr = None, reduction_loss = None\<rparr>"
    by (simp add: load_data_unfold Moment_init_def)
  from load_data_raises_before_loaded [OF labels] load_data_raises_before_loaded [OF sens]
    labels sens
  show ?thesis by (simp add: is_series_def Moment_init_def)
qed

text \<open>
  C4. After a call \<open>load_data(features, labels, sensitive_features=s)\<close> that returns, where
  the features have \<open>N\<close> rows and the labels and \<open>s\<close> have \<open>N\<close> entries each,
  \<open>total_samples\<close> is \<open>N\<close>, the tags have \<open>N\<close> rows, and the column \<open>group_id\<close> of the tags
  holds \<open>s[i]\<close> at every row \<open>i < N\<close>.
\<close>

theorem load_data_sensitive_aligned:
  assumes ok: "load_data b self X y (Some s) = Returned self'"
    and rows: "shape0 X = Inr N" and labels: "shape0 y = Inr N" and sens: "shape0 s = Inr N"
  shows "total_samples self' = Inr N
     \<and> (\<exists>tags. self_tags self' = Some tags \<and> shape0 tags = Inr N
          \<and> get_column ''label'' tags = Some (cells y)
          \<and> get_column ''group_id'' tags = Some (cells s)
          \<and> length (cells s) = N \<and> (\<forall>i<N. the (get_column ''group_id'' tags) ! i = cells s ! i))"
proof -
  from ok have unl: "\<not> data_loaded self"
    unfolding load_data_unfold by (auto split: if_splits)
  from ok unl obtain r where r: "sensitive_from_native (Some s) = Inr r"
    unfolding load_data_unfold by (auto split: sum.splits)
  then obtain n vs where rv: "r = Some (NwSeries n vs)" "shape0 s = Inr (length vs)" "cells s = vs"
    using sensitive_from_native_Some by blast
  from ok unl r obtain t where t: "label_frame (from_native_pass_series y) = Inr t"
    unfolding load_data_def Let_def by (auto split: sum.splits)
  then have tv: "t = NwDataFrame [(''label'', cells y)]" "shape0 y = Inr (length (cells y))"
    using label_frame_Inr by blast+
  from sens rv have lv: "length vs = N" by simp
  from labels tv have ly: "length (cells y) = N" by simp
  from ok unl r t rv tv lv ly
  have "self' = self\<lparr>self_X := Some (from_native_pass X), self_y := Some (from_native_pass_series y),
      self_tags := Some (NwDataFrame [(''label'', cells y), (''group_id'', vs)]),
      data_loaded := True, self_gamma_descr := Some PyNone\<rparr>"
    unfolding load_data_def Let_def by auto
  with rows rv lv ly show ?thesis
    by (simp add: total_samples_def shape0_from_native_pass)
qed

theorem load_data_sensitive_aligned_witness:
  "load_data False (Moment_init :: int moment) (PdDataFrame [(''f'', [5, 6])]) (PdSeries PyNone [0, 1])
       (Some (PdSeries (PyStr ''sex'') [7, 8]))
     = Returned \<lparr>cls = Moment, data_loaded = True, self_X = Some (NwDataFrame [(''f'', [5, 6])]),
         self_y = Some (NwSeries PyNone [0, 1]),
         self_tags = Some (NwDataFrame [(''label'', [0, 1]), (''group_id'', [7, 8])]),
         self_gamma_descr = Some PyNone, reduction_loss = None\<rparr>
   \<and> shape0 (PdDataFrame [(''f'', [5 :: int, 6])]) = Inr 2
   \<and> shape0 (PdSeries PyNone [0 :: int, 1]) = Inr 2
   \<and> shape0 (PdSeries (PyStr ''sex'') [7 :: int, 8]) = Inr 2
   \<and> total_samples \<lparr>cls = Moment, data_loaded = True, self_X = Some (NwDataFrame [(''f'', [5 :: int, 6])]),
         self_y = Some (NwSeries PyNone [0, 1]),
         self_tags = Some (NwDataFrame [(''label'', [0, 1]), (''group_id'', [7, 8])]),
         self_gamma_descr = Some PyNone, reduction_loss = None\<rparr> = Inr 2"
proof -
  have ok: "load_data False (Moment_init :: int moment) (PdDataFrame [(''f'', [5, 6])]) (PdSeries PyNone [0, 1])
       (Some (PdSeries (PyStr ''sex'') [7, 8]))
     = Returned \<lparr>cls = Moment, data_loaded = True, self_X = Some (NwDataFrame [(''f'', [5, 6])]),
         self_y = Some (NwSeries PyNone [0, 1]),
         self_tags = Some (NwDataFrame [(''label'', [0, 1]), (''group_id'', [7, 8])]),
         self_gamma_descr = Some PyNone, reduction_loss = None\<rparr>"
    by (simp add: load_data_unfold Moment_init_def)
  have rows: "shape0 (PdDataFrame [(''f'', [5 :: int, 6])]) = Inr 2" by simp
  have labels: "shape0 (PdSeries PyNone [0 :: int, 1]) = Inr 2" by simp
  have sens: "shape0 (PdSeries (PyStr ''sex'') [7 :: int, 8]) = Inr 2" by simp
  from load_data_sensitive_aligned [OF ok rows labels sens] ok rows labels sens
  show ?thesis by simp
qed

text \<open>
  C7. After a call \<open>load_data(features, labels, sensitive_features=None)\<close> that returns, the
  tags are a frame of exactly one column, named \<open>label\<close>, which holds the labels; there is
  no column \<open>group_id\<close>.
\<close>

theorem load_data_without_sensitive:
  assumes "load_data b self X y None = Returned self'"
  shows "self_tags self' = Some (NwDataFrame [(''label'', cells y)])
     \<and> columns (NwDataFrame [(''label'', cells y)]) = [''label'']
     \<and> get_column ''group_id'' (NwDataFrame [(''label'', cells y)]) = None"
proof -
  from assms have unl: "\<not> data_loaded self"
    unfolding load_data_unfold by (auto split: if_splits)
  from assms unl obtain t where t: "label_frame (from_native_pass_series y) = Inr t"
    unfolding load_data_def Let_def by (auto split: sum.splits)
  then have "t = NwDataFrame [(''label'', cells y)]"
    using label_frame_Inr by blast
  with assms unl t show ?thesis
    unfolding load_data_def Let_def by auto
qed

theorem load_data_without_sensitive_witness:
  "load_data False (Moment_init :: int moment) (PdDataFrame [(''f'', [5, 6])]) (PdSeries (PyStr ''y'') [0, 1]) None
     = Returned \<lparr>cls = Moment, data_loaded = True, self_X = Some (NwDataFrame [(''f'', [5, 6])]),
         self_y = Some (NwSeries (PyStr ''y'') [0, 1]),
         self_tags = Some (NwDataFrame [(''label'', [0, 1])]),
         self_gamma_descr = Some PyNone, reduction_loss = None\<rparr>
   \<and> columns (NwDataFrame [(''label'', [0 :: int, 1])]) = [''label'']"
proof -
  have ok: "load_data False (Moment_init :: int moment) (PdDataFrame [(''f'', [5, 6])]) (PdSeries (PyStr ''y'') [0, 1]) None
     = Returned \<lparr>cls = Moment, data_loaded = True, self_X = Some (NwDataFrame [(''f'', [5, 6])]),
         self_y = Some (NwSeries (PyStr ''y'') [0, 1]),
         self_tags = Some (NwDataFrame [(''label'', [0, 1])]),
         self_gamma_descr = Some PyNone, reduction_loss = None\<rparr>"
    by (simp add: load_data_unfold Moment_init_def)
  from load_data_without_sensitive [OF ok] ok show ?thesis by simp
qed

section \<open>The operations of the base class\<close>

text \<open>
  C6. Each of \<open>gamma\<close>, \<open>bound\<close>, \<open>project_lambda\<close> and \<open>signed_weights\<close>, called on an
  instance of the base class, in whatever state, raises \<open>NotImplementedError\<close>: it neither
  returns a value nor fails in another way. The signal is distinct from every data error:
  no failure of \<open>load_data\<close> and no failure of the \<open>GroupFeature\<close> constructor is a
  \<open>NotImplementedError\<close>.
\<close>

theorem numerical_operations_not_implemented:
  "gamma self predictor = Inl NotImplementedError
   \<and> bound self = Inl NotImplementedError
   \<and> project_lambda self lambda_vec = Inl NotImplementedError
   \<and> signed_weights self lambda_vec = Inl NotImplementedError
   \<and> load_data b self X y s \<noteq> Raised NotImplementedError self'
   \<and> GroupFeature_init base_name feature_vector index name \<noteq> Inl NotImplementedError"
proof -
  have "load_data b self X y s \<noteq> Raised NotImplementedError self'"
    unfolding load_data_unfold
    by (cases s; cases y; cases "the s")
       (auto split: if_splits sum.splits option.splits simp: Let_def)
  moreover have "GroupFeature_init base_name feature_vector index name \<noteq> Inl NotImplementedError"
    by (auto simp: GroupFeature_init_def Let_def split: sum.splits
             dest: np_unique_error resolve_name_error)
  ultimately show ?thesis
    by (simp add: gamma_def bound_def project_lambda_def signed_weights_def)
qed

text \<open>
  C9. \<open>ClassificationMoment()._moment_type()\<close> and \<open>LossMoment(loss)._moment_type()\<close> return
  different tags (the two classes), and the attribute \<open>reduction_loss\<close> of \<open>LossMoment(loss)\<close>
  is the very object \<open>loss\<close> handed to the constructor: the same reference.
\<close>

theorem moment_type_tags_distinct:
  "moment_type (ClassificationMoment_init :: 'a moment) = Inr (ModuleClass ClassificationMoment)
   \<and> moment_type (LossMoment_init loss :: 'a moment) = Inr (ModuleClass LossMoment)
   \<and> moment_type (ClassificationMoment_init :: 'a moment)
       \<noteq> moment_type (LossMoment_init loss :: 'a moment)
   \<and> reduction_loss (LossMoment_init loss :: 'a moment) = Some loss"
  by (simp add: moment_type_def ClassificationMoment_init_def LossMoment_init_def Moment_init_def)

text \<open>
  C10, as stated, does not hold: what \<open>_moment_type\<close> returns on a fresh instance of the
  base class is not the class \<open>NotImplementedError\<close>.
\<close>

theorem base_moment_type_not_class:
  "moment_type (Moment_init :: int moment) \<noteq> Inr (ExceptionClass NotImplementedError)"
  by (simp add: moment_type_def Moment_init_def)

text \<open>
  C10, amended. On an instance of the base class \<open>_moment_type\<close> does not raise; it returns,
  as an ordinary value, an instance of \<open>NotImplementedError\<close> made by calling the class,
  whereas \<open>gamma\<close> on the same instance raises \<open>NotImplementedError\<close>.
\<close>

theorem base_moment_type_returns_instance:
  assumes "cls self = Moment"
  shows "moment_type self = Inr (ExceptionInstance NotImplementedError)
     \<and> gamma self predictor = Inl NotImplementedError"
  using assms by (simp add: moment_type_def gamma_def)

theorem base_moment_type_returns_instance_witness:
  "cls (Moment_init :: int moment) = Moment
   \<and> moment_type (Moment_init :: int moment) = Inr (ExceptionInstance NotImplementedError)
   \<and> gamma (Moment_init :: int moment) () = Inl NotImplementedError"
  using base_moment_type_returns_instance [of "Moment_init :: int moment" "()"]
  by (simp add: Moment_init_def)

section \<open>Constructing a group feature\<close>

text \<open>
  C2, as stated, does not hold: with an explicit name the constructor does not look at the
  name of the series. A series named \<open>0\<close> (an integer) and the explicit name \<open>gender\<close> give
  an instance, named \<open>gender\<close>, and no error.
\<close>

theorem explicit_name_skips_validation:
  "GroupFeature_init ''sens_'' (PdSeries (PyInt 0) [Some ''f'', Some ''m'', Some ''f'']) 2 (Some ''gender'')
     = Inr \<lparr>raw_feature = PdSeries (PyInt 0) [Some ''f'', Some ''m'', Some ''f''],
            classes = [Some ''f'', Some ''m''], feature_name = ''gender''\<rparr>"
  by (simp add: GroupFeature_init_def np_unique_def resolve_name_def)

text \<open>
  C2, amended. When no explicit name is given and the values can be sorted, every feature
  vector whose own name is neither \<open>None\<close> nor a string makes the constructor fail with a
  \<open>ValueError\<close> whose message holds the offending name and its type; the name is not
  coerced. When the values cannot be sorted, the \<open>TypeError\<close> of \<open>numpy.unique\<close>, which
  runs first, is raised instead.
\<close>

theorem non_string_name_rejected:
  assumes "\<not> name_is_none_or_str (intrinsic_name feature_vector)"
  shows "(orderable (cells feature_vector) \<longrightarrow>
          GroupFeature_init base_name feature_vector index None
            = Inl (ValueError (''Series name must be a string. Value '' @ [CHR 0x27]
                @ py_str (intrinsic_name feature_vector) @ [CHR 0x27] @ '' was of type ''
                @ py_type (intrinsic_name feature_vector))))
     \<and> (\<not> orderable (cells feature_vector) \<longrightarrow>
          GroupFeature_init base_name feature_vector index None = Inl TypeError)"
proof (intro conjI impI)
  assume "orderable (cells feature_vector)"
  then obtain cs where "GroupFeature_init base_name feature_vector index None
        = resolve_name \<lparr>raw_feature = (if is_nw_series feature_vector then to_pandas feature_vector
              else feature_vector), classes = cs, feature_name = base_name @ str_int index\<rparr> None"
    using GroupFeature_init_orderable by blast
  with assms show "GroupFeature_init base_name feature_vector index None
            = Inl (ValueError (''Series name must be a string. Value '' @ [CHR 0x27]
                @ py_str (intrinsic_name feature_vector) @ [CHR 0x27] @ '' was of type ''
                @ py_type (intrinsic_name feature_vector)))"
    by (cases "intrinsic_name feature_vector")
       (simp_all add: resolve_name_raw SERIES_NAME_NOT_STRING_def)
next
  assume "\<not> orderable (cells feature_vector)"
  then show "GroupFeature_init base_name feature_vector index None = Inl TypeError"
    by (rule GroupFeature_init_not_orderable)
qed

theorem non_string_name_rejected_witness:
  "\<not> name_is_none_or_str (intrinsic_name (PdSeries (PyInt 0) [Some ''f'', Some ''m'', Some ''f'']))
   \<and> orderable (cells (PdSeries (PyInt 0) [Some ''f'', Some ''m'', Some ''f'']))
   \<and> GroupFeature_init ''sens_'' (PdSeries (PyInt 0) [Some ''f'', Some ''m'', Some ''f'']) 2 None
     = Inl (ValueError ''Series name must be a string. Value '0' was of type <class 'int'>'')
   \<and> \<not> name_is_none_or_str (intrinsic_name (PdSeries (PyInt 0) [Some ''f'', None]))
   \<and> \<not> orderable (cells (PdSeries (PyInt 0) [Some ''f'', None]))
   \<and> GroupFeature_init ''sens_'' (PdSeries (PyInt 0) [Some ''f'', None]) 2 None = Inl TypeError"
  using non_string_name_rejected [of "PdSeries (PyInt 0) [Some ''f'', Some ''m'', Some ''f'']" "''sens_''" 2]
    non_string_name_rejected [of "PdSeries (PyInt 0) [Some ''f'', None]" "''sens_''" 2]
  by (simp add: intrinsic_name_def orderable_def str_eval)

text \<open>
  C5. The constructor makes an instance exactly when the values can be sorted and either
  an explicit name is given or the feature vector's own name is \<open>None\<close> or a string. The
  name of every instance it makes follows the order of the specification: the explicit
  name when one is given; otherwise the feature vector's own name when that is a string;
  otherwise the base name followed by the index.
\<close>

theorem name_resolution_order:
  "((\<exists>g. GroupFeature_init base_name feature_vector index name = Inr g)
      \<longleftrightarrow> orderable (cells feature_vector)
          \<and> (name \<noteq> None \<or> name_is_none_or_str (intrinsic_name feature_vector)))
   \<and> (\<forall>g. GroupFeature_init base_name feature_vector index name = Inr g
          \<longrightarrow> feature_name g = resolved_name_spec base_name feature_vector index name)"
proof (cases "orderable (cells feature_vector)")
  case False
  then have "GroupFeature_init base_name feature_vector index name = Inl TypeError"
    by (rule GroupFeature_init_not_orderable)
  with False show ?thesis by simp
next
  case True
  then obtain cs where "GroupFeature_init base_name feature_vector index name
        = resolve_name \<lparr>raw_feature = (if is_nw_series feature_vector then to_pandas feature_vector
              else feature_vector), classes = cs, feature_name = base_name @ str_int index\<rparr> name"
    using GroupFeature_init_orderable by blast
  with True show ?thesis
    by (cases name; cases "intrinsic_name feature_vector")
       (auto simp: resolve_name_raw resolved_name_spec_def)
qed

theorem name_resolution_order_witness:
  "GroupFeature_init ''sens_'' (PyList [Some ''a'', Some ''b'', Some ''a'', Some ''c'']) 2 None
     = Inr \<lparr>raw_feature = PyList [Some ''a'', Some ''b'', Some ''a'', Some ''c''],
            classes = [Some ''a'', Some ''b'', Some ''c''], feature_name = ''sens_2''\<rparr>
   \<and> resolved_name_spec ''sens_'' (PyList [Some ''a'', Some ''b'', Some ''a'', Some ''c'']) 2 None = ''sens_2''
   \<and> GroupFeature_init ''sens_'' (NwSeries (PyStr ''sex'') [Some ''b'', Some ''a'']) 2 None
     = Inr \<lparr>raw_feature = PdSeries (PyStr ''sex'') [Some ''b'', Some ''a''],
            classes = [Some ''a'', Some ''b''], feature_name = ''sex''\<rparr>
   \<and> resolved_name_spec ''sens_'' (NwSeries (PyStr ''sex'') [Some ''b'', Some ''a'']) 2 None = ''sex''
   \<and> GroupFeature_init ''sens_'' (PdSeries (PyStr ''sex'') [Some ''b'', Some ''a'']) 2 (Some ''gender'')
     = Inr \<lparr>raw_feature = PdSeries (PyStr ''sex'') [Some ''b'', Some ''a''],
            classes = [Some ''a'', Some ''b''], feature_name = ''gender''\<rparr>
   \<and> resolved_name_spec ''sens_'' (PdSeries (PyStr ''sex'') [Some ''b'', Some ''a'']) 2 (Some ''gender'')
     = ''gender''"
proof -
  have default: "GroupFeature_init ''sens_'' (PyList [Some ''a'', Some ''b'', Some ''a'', Some ''c'']) 2 None
     = Inr \<lparr>raw_feature = PyList [Some ''a'', Some ''b'', Some ''a'', Some ''c''],
            classes = [Some ''a'', Some ''b'', Some ''c''], feature_name = ''sens_2''\<rparr>"
    by (simp add: GroupFeature_init_def np_unique_def resolve_name_def strip_nul_def str_eval)
  have own: "GroupFeature_init ''sens_'' (NwSeries (PyStr ''sex'') [Some ''b'', Some ''a'']) 2 None
     = Inr \<lparr>raw_feature = PdSeries (PyStr ''sex'') [Some ''b'', Some ''a''],
            classes = [Some ''a'', Some ''b''], feature_name = ''sex''\<rparr>"
    by (simp add: GroupFeature_init_def np_unique_def resolve_name_def)
  have explicit: "GroupFeature_init ''sens_'' (PdSeries (PyStr ''sex'') [Some ''b'', Some ''a'']) 2 (Some ''gender'')
     = Inr \<lparr>raw_feature = PdSeries (PyStr ''sex'') [Some ''b'', Some ''a''],
            classes = [Some ''a'', Some ''b''], feature_name = ''gender''\<rparr>"
    by (simp add: GroupFeature_init_def np_unique_def resolve_name_def)
  from name_resolution_order [THEN conjunct2, rule_format, OF default]
    name_resolution_order [THEN conjunct2, rule_format, OF own]
    name_resolution_order [THEN conjunct2, rule_format, OF explicit]
    default own explicit
  show ?thesis by simp
qed




end
